theory Spec2Isabelle
  imports Main
begin

section \<open>Account data, as \<open>users/router.py\<close> uses it\<close>

text \<open>
  \<open>EnUser\<close> is the request model of \<open>user_register\<close> (the router reads its
  \<open>username\<close>, \<open>mail\<close> and \<open>password\<close>) and the \<open>response_model\<close> of
  \<open>/read\<close>, \<open>/update\<close> and \<open>/delete\<close>. \<open>EnUserDB\<close> is the table row: the
  fields of \<open>EnUser\<close> plus the primary key and the two timestamps the router assigns.
  The primary key is \<open>None\<close> until the store has assigned one
  (\<open>db_user.id is not None\<close> is tested after the commit).
\<close>

record EnUser =
  username :: string
  mail :: string
  password :: string

record EnUserDB = EnUser +
  id_col :: "int option"
  date_joined :: "nat option"
  last_login :: "nat option"

text \<open>
  Modelled from the spec: \<open>EnUserUpdate\<close> (declared in \<open>users/model.py\<close>, which is not
  among the sources) is the partial update; each field of \<open>EnUser\<close> may be present or
  absent in it.
\<close>

record EnUserUpdate =
  upd_username :: "string option"
  upd_mail :: "string option"
  upd_password :: "string option"

text \<open>
  The claim set of a token: the dictionary that \<open>get_token_information\<close> produces and
  \<open>decode_token\<close> returns. A key that is not in the dictionary is \<open>None\<close> here, so
  \<open>"id" in token_data\<close> is \<open>claim_id td \<noteq> None\<close>.
\<close>

record claims =
  claim_id :: "int option"
  claim_username :: "string option"

datatype status = HTTP_401_UNAUTHORIZED | HTTP_404_NOT_FOUND | HTTP_409_CONFLICT

text \<open>
  An \<open>HTTPException\<close> raised by the router carries a status and a detail string. Any other
  exception leaves the handler unhandled (the framework answers 500); it is kept as a
  value of its own, so that it is never confused with one of the typed failures.
\<close>

datatype py_exception = KeyError | AttributeError | NoInspectionAvailable | UnmappedInstanceError

datatype error = HTTPException status string | Unhandled py_exception

record token_response =
  message :: string
  user_data :: claims
  access_token :: string
  token_type :: string

record delete_response =
  del_message :: string
  del_user_data :: claims
  del_token :: string
  del_token_type :: string

section \<open>External collaborators\<close>

text \<open>
  The libraries and the storage engine the router calls, as one record of functions:
  passlib's \<open>pbkdf2_sha256.hash\<close> and \<open>verify\<close>, jose's \<open>jwt.encode\<close> and
  \<open>jwt.decode\<close> under the process-wide secret and the fixed algorithm,
  \<open>datetime.now()\<close> (read once per request), the primary key the storage engine
  gives to a row inserted into the table it is shown, and Python's \<open>str.lower()\<close>,
  which lowercases every cased character of Unicode and is not written out here.
\<close>

record env =
  pbkdf2_sha256_hash :: "string \<Rightarrow> string"
  pbkdf2_sha256_verify :: "string \<Rightarrow> string \<Rightarrow> bool"
  jwt_encode :: "claims \<Rightarrow> string"
  jwt_decode :: "string \<Rightarrow> claims option"
  datetime_now :: nat
  autoincrement :: "EnUserDB list \<Rightarrow> int option"
  str_lower :: "string \<Rightarrow> string"

section \<open>Helpers of \<open>users/model.py\<close> and \<open>constants.py\<close>\<close>

text \<open>
  Modelled from the spec: \<open>get_token_information\<close> (a method of \<open>users/model.py\<close>, which
  is not among the sources) is the minimal identity projection of the object it is called
  on, with no password material: the username, and the id where the object has one. The
  request object of \<open>user_register\<close> is an \<open>EnUser\<close> and has no id.
\<close>

definition get_token_information :: "EnUser \<Rightarrow> claims" where
  "get_token_information u = \<lparr>claim_id = None, claim_username = Some (username u)\<rparr>"

definition get_token_information_db :: "EnUserDB \<Rightarrow> claims" where
  "get_token_information_db u = \<lparr>claim_id = id_col u, claim_username = Some (username u)\<rparr>"

text \<open>
  Modelled from the spec: \<open>verify_password\<close> (a method of \<open>users/model.py\<close>) verifies the
  plaintext against the hash stored in the row.
\<close>

definition verify_password :: "env \<Rightarrow> EnUserDB \<Rightarrow> string \<Rightarrow> bool" where
  "verify_password e u plain = pbkdf2_sha256_verify e plain (password u)"

text \<open>
  Modelled from the spec: \<open>decode_token\<close> (a function of \<open>constants.py\<close>, which is not
  among the sources) verifies the signature and returns the claims, and fails as
  unauthenticated (status 401) on a token that does not verify. It never reads the store.
  The spec gives no detail text for that failure; the one below stands for it.
\<close>

definition decode_token :: "env \<Rightarrow> string \<Rightarrow> error + claims" where
  "decode_token e token =
     (case jwt_decode e token of
        None \<Rightarrow> Inl (HTTPException HTTP_401_UNAUTHORIZED ''Invalid token.'')
      | Some td \<Rightarrow> Inr td)"

text \<open>
  Modelled from the spec: \<open>model_dict\<close> (called on the \<open>EnUserUpdate\<close> payload; declared
  in \<open>users/model.py\<close>) yields the fields present in the partial update, by name.
\<close>

definition model_dict :: "EnUserUpdate \<Rightarrow> (string \<times> string) list" where
  "model_dict u =
     (case upd_username u of None \<Rightarrow> [] | Some v \<Rightarrow> [(''username'', v)]) @
     (case upd_mail u of None \<Rightarrow> [] | Some v \<Rightarrow> [(''mail'', v)]) @
     (case upd_password u of None \<Rightarrow> [] | Some v \<Rightarrow> [(''password'', v)])"

text \<open>A model instance is truthy in Python: \<open>not user\<close> is false for every payload.\<close>

definition truthy :: "EnUserUpdate \<Rightarrow> bool" where
  "truthy u = True"

section \<open>The session: queries and writes on the table of accounts\<close>

text \<open>
  The table is the list of its rows in insertion order.
  \<open>select(EnUserDB).where(EnUserDB.username == u)\<close> followed by \<open>.first()\<close> is the first
  row whose column equals \<open>u\<close>; the comparison is equality of strings.
\<close>

definition select_by_username :: "EnUserDB list \<Rightarrow> string \<Rightarrow> EnUserDB option" where
  "select_by_username db u = find (\<lambda>r. username r = u) db"

definition select_by_mail :: "EnUserDB list \<Rightarrow> string \<Rightarrow> EnUserDB option" where
  "select_by_mail db m = find (\<lambda>r. mail r = m) db"

text \<open>
  \<open>db.get(cls, ident)\<close> looks a row up by primary key. It needs a mapped table class:
  \<open>EnUserDB\<close> is one; \<open>EnUser\<close>, the plain model that requests are parsed into, is not,
  and the call raises (SQLAlchemy's \<open>NoInspectionAvailable\<close>: the class has no mapper).
\<close>

datatype model_class = Cls_EnUser | Cls_EnUserDB

definition db_get :: "EnUserDB list \<Rightarrow> model_class \<Rightarrow> int \<Rightarrow> error + EnUserDB option" where
  "db_get db cls ident =
     (case cls of
        Cls_EnUserDB \<Rightarrow> Inr (find (\<lambda>r. id_col r = Some ident) db)
      | Cls_EnUser \<Rightarrow> Inl (Unhandled NoInspectionAvailable))"

text \<open>
  \<open>db.add(row); db.commit(); db.refresh(row)\<close> on a new row: the engine assigns the
  primary key and appends the row; the refreshed row is returned with the table.
\<close>

definition db_insert :: "env \<Rightarrow> EnUserDB list \<Rightarrow> EnUserDB \<Rightarrow> EnUserDB list \<times> EnUserDB" where
  "db_insert e db row =
     (let row' = row\<lparr>id_col := autoincrement e db\<rparr> in (db @ [row'], row'))"

text \<open>
  \<open>db.commit()\<close> after attributes of a loaded row were assigned: the row with that
  primary key is written back.
\<close>

definition db_merge :: "EnUserDB list \<Rightarrow> EnUserDB \<Rightarrow> EnUserDB list" where
  "db_merge db row = map (\<lambda>r. if id_col r = id_col row then row else r) db"

text \<open>\<open>db.delete(row); db.commit()\<close>: the row with that primary key is gone.\<close>

definition db_delete :: "EnUserDB list \<Rightarrow> EnUserDB \<Rightarrow> EnUserDB list" where
  "db_delete db row = filter (\<lambda>r. id_col r \<noteq> id_col row) db"

section \<open>The operations of \<open>users/router.py\<close>\<close>

text \<open>
  Every operation takes the table and returns it with the response: \<open>Inl\<close> an error,
  \<open>Inr\<close> the body of the 200 answer.
\<close>

definition user_login ::
  "env \<Rightarrow> EnUserDB list \<Rightarrow> string \<Rightarrow> string \<Rightarrow> EnUserDB list \<times> (error + token_response)" where
  "user_login e db uname pw =
     (case select_by_username db uname of
        None \<Rightarrow> (db, Inl (HTTPException HTTP_404_NOT_FOUND ''User not found.''))
      | Some user_db \<Rightarrow>
          if verify_password e user_db pw then
            (let user_db' = user_db\<lparr>last_login := Some (datetime_now e)\<rparr>;
                 token = jwt_encode e (get_token_information_db user_db')
             in (db_merge db user_db',
                 Inr \<lparr>message = ''User login successful.'',
                      user_data = get_token_information_db user_db',
                      access_token = token,
                      token_type = ''bearer''\<rparr>))
          else (db, Inl (HTTPException HTTP_401_UNAUTHORIZED ''Password incorrect.'')))"

definition user_register ::
  "env \<Rightarrow> EnUserDB list \<Rightarrow> EnUser \<Rightarrow> EnUserDB list \<times> (error + token_response)" where
  "user_register e db user =
     (if select_by_username db (username user) \<noteq> None then
        (db, Inl (HTTPException HTTP_409_CONFLICT ''User already exists.''))
      else if select_by_mail db (mail user) \<noteq> None then
        (db, Inl (HTTPException HTTP_409_CONFLICT ''Mail already in use.''))
      else
        (let db_user = \<lparr>username = str_lower e (username user),
                        mail = mail user,
                        password = pbkdf2_sha256_hash e (password user),
                        id_col = None,
                        date_joined = Some (datetime_now e),
                        last_login = None\<rparr>;
             (db', db_user') = db_insert e db db_user
         in if id_col db_user' \<noteq> None then
              (db', Inr \<lparr>message = ''User created.'',
                        user_data = get_token_information user,
                        access_token = jwt_encode e (get_token_information user),
                        token_type = ''bearer''\<rparr>)
            else (db', Inl (HTTPException HTTP_404_NOT_FOUND ''User registration failed.''))))"

text \<open>
  \<open>response_model=EnUser\<close>: the answer of \<open>/read\<close> and \<open>/update\<close> is the row cut down
  to the fields of \<open>EnUser\<close>.
\<close>

definition response_model :: "EnUserDB \<Rightarrow> EnUser" where
  "response_model row = EnUser.truncate row"

definition user_read :: "env \<Rightarrow> EnUserDB list \<Rightarrow> string \<Rightarrow> error + EnUser" where
  "user_read e db token =
     (if token = [] then Inl (HTTPException HTTP_401_UNAUTHORIZED ''Not authenticated.'')
      else
        (case decode_token e token of
           Inl err \<Rightarrow> Inl err
         | Inr token_data \<Rightarrow>
             (case claim_id token_data of
                None \<Rightarrow> Inl (Unhandled KeyError)
              | Some ident \<Rightarrow>
                  (case db_get db Cls_EnUserDB ident of
                     Inl err \<Rightarrow> Inl err
                   | Inr None \<Rightarrow> Inl (HTTPException HTTP_404_NOT_FOUND ''User not found.'')
                   | Inr (Some user) \<Rightarrow> Inr (response_model user)))))"

text \<open>
  \<open>setattr(user_db, field, value)\<close> on a row; the names are those \<open>model_dict\<close> yields.
\<close>

definition setattr :: "EnUserDB \<Rightarrow> string \<Rightarrow> string \<Rightarrow> EnUserDB" where
  "setattr row field v =
     (if field = ''username'' then row\<lparr>username := v\<rparr>
      else if field = ''mail'' then row\<lparr>mail := v\<rparr>
      else if field = ''password'' then row\<lparr>password := v\<rparr>
      else row)"

text \<open>
  The loop \<open>for field, value in user.model_dict().items(): setattr(user_db, field, value)\<close>.
  \<open>user_db\<close> is what \<open>db.get\<close> returned: on \<open>None\<close> the first assignment raises
  \<open>AttributeError\<close>.
\<close>

fun setattr_items :: "EnUserDB option \<Rightarrow> (string \<times> string) list \<Rightarrow> error + EnUserDB option" where
  "setattr_items user_db [] = Inr user_db"
| "setattr_items None ((field, v) # items) = Inl (Unhandled AttributeError)"
| "setattr_items (Some row) ((field, v) # items) = setattr_items (Some (setattr row field v)) items"

text \<open>
  \<open>update_user\<close>. The test before the loop is \<open>if not user\<close>, on the payload. After the
  loop, \<open>db.commit()\<close> and \<open>db.refresh(user_db)\<close>: refreshing \<open>None\<close> raises.
\<close>

definition update_user ::
  "env \<Rightarrow> EnUserDB list \<Rightarrow> string \<Rightarrow> EnUserUpdate \<Rightarrow> EnUserDB list \<times> (error + EnUser)" where
  "update_user e db token user =
     (case decode_token e token of
        Inl err \<Rightarrow> (db, Inl err)
      | Inr token_data \<Rightarrow>
          (case claim_id token_data of
             None \<Rightarrow> (db, Inl (Unhandled KeyError))
           | Some ident \<Rightarrow>
               (case db_get db Cls_EnUserDB ident of
                  Inl err \<Rightarrow> (db, Inl err)
                | Inr user_db \<Rightarrow>
                    if \<not> truthy user then
                      (db, Inl (HTTPException HTTP_404_NOT_FOUND ''User not found.''))
                    else
                      (case setattr_items user_db (model_dict user) of
                         Inl err \<Rightarrow> (db, Inl err)
                       | Inr None \<Rightarrow> (db, Inl (Unhandled UnmappedInstanceError))
                       | Inr (Some row) \<Rightarrow> (db_merge db row, Inr (response_model row))))))"

text \<open>
  \<open>delete_user\<close>. Without an id in the claims the row is selected by the claim username
  (\<open>token_data["username"]\<close> raises \<open>KeyError\<close> when that is missing too); with an id
  the lookup is \<open>db.get(EnUser, token_data["id"])\<close>.
\<close>

definition delete_user ::
  "env \<Rightarrow> EnUserDB list \<Rightarrow> string \<Rightarrow> EnUserDB list \<times> (error + delete_response)" where
  "delete_user e db token =
     (case decode_token e token of
        Inl err \<Rightarrow> (db, Inl err)
      | Inr token_data \<Rightarrow>
          (case (case claim_id token_data of
                   None \<Rightarrow>
                     (case claim_username token_data of
                        None \<Rightarrow> Inl (Unhandled KeyError)
                      | Some u \<Rightarrow> Inr (select_by_username db u))
                 | Some ident \<Rightarrow> db_get db Cls_EnUser ident) of
             Inl err \<Rightarrow> (db, Inl err)
           | Inr None \<Rightarrow> (db, Inl (HTTPException HTTP_404_NOT_FOUND ''User not found.''))
           | Inr (Some user) \<Rightarrow>
               (db_delete db user,
                Inr \<lparr>del_message = ''User was successfully deleted.'',
                     del_user_data = get_token_information_db user,
                     del_token = token,
                     del_token_type = ''bearer''\<rparr>)))"

section \<open>A test double for the external collaborators\<close>

text \<open>
  The concrete scenarios below need a concrete environment. The token codec writes the
  claims out in the clear (the id in unary after a sign, then the username), the hasher
  prefixes the plaintext with a tag, every request is served at time 1000, the engine
  numbers a new row one above the largest key in the table, and strings are lowercased
  by \<open>lower\<close>. None of the general theorems depends on it.

  \<open>lower\<close> lowercases the ASCII letters and leaves every other character as it is:
  on a string of ASCII characters it is what \<open>str.lower()\<close> returns, and the names of
  the scenarios are ASCII. It also serves to compare two such names without regard to
  case.
\<close>

definition lower_char :: "char \<Rightarrow> char" where
  "lower_char c =
     (case map_of (zip ''ABCDEFGHIJKLMNOPQRSTUVWXYZ'' ''abcdefghijklmnopqrstuvwxyz'') c of
        Some d \<Rightarrow> d
      | None \<Rightarrow> c)"

definition lower :: "string \<Rightarrow> string" where
  "lower s = map lower_char s"

definition demo_encode_id :: "int option \<Rightarrow> string" where
  "demo_encode_id i =
     (case i of
        None \<Rightarrow> ''-''
      | Some n \<Rightarrow> (if n < 0 then CHR ''m'' else CHR ''p'') # replicate (nat \<bar>n\<bar>) (CHR ''1''))"

definition demo_decode_id :: "string \<Rightarrow> int option option" where
  "demo_decode_id s =
     (case s of
        [] \<Rightarrow> None
      | c # ds \<Rightarrow>
          if c = CHR ''-'' \<and> ds = [] then Some None
          else if c = CHR ''p'' \<and> ds = replicate (length ds) (CHR ''1'')
            then Some (Some (int (length ds)))
          else if c = CHR ''m'' \<and> ds \<noteq> [] \<and> ds = replicate (length ds) (CHR ''1'')
            then Some (Some (- int (length ds)))
          else None)"

definition demo_encode :: "claims \<Rightarrow> string" where
  "demo_encode c =
     demo_encode_id (claim_id c) @ CHR '':'' #
     (case claim_username c of None \<Rightarrow> ''n'' | Some u \<Rightarrow> CHR ''u'' # u)"

definition demo_decode :: "string \<Rightarrow> claims option" where
  "demo_decode s =
     (case demo_decode_id (takeWhile (\<lambda>c. c \<noteq> CHR '':'') s) of
        None \<Rightarrow> None
      | Some i \<Rightarrow>
          (case dropWhile (\<lambda>c. c \<noteq> CHR '':'') s of
             [] \<Rightarrow> None
           | _ # rest \<Rightarrow>
               if rest = ''n'' then Some \<lparr>claim_id = i, claim_username = None\<rparr>
               else (case rest of
                       [] \<Rightarrow> None
                     | t # u \<Rightarrow>
                         if t = CHR ''u'' then Some \<lparr>claim_id = i, claim_username = Some u\<rparr>
                         else None)))"

definition demo_autoincrement :: "EnUserDB list \<Rightarrow> int option" where
  "demo_autoincrement db =
     Some (1 + foldr (\<lambda>r m. max (case id_col r of None \<Rightarrow> 0 | Some i \<Rightarrow> i) m) db 0)"

definition demo_env :: env where
  "demo_env =
     \<lparr>pbkdf2_sha256_hash = (\<lambda>p. ''$pbkdf2-sha256$'' @ p),
      pbkdf2_sha256_verify = (\<lambda>p h. h = ''$pbkdf2-sha256$'' @ p),
      jwt_encode = demo_encode,
      jwt_decode = demo_decode,
      datetime_now = 1000,
      autoincrement = demo_autoincrement,
      str_lower = lower\<rparr>"

text \<open>The same environment on an engine that hands out no primary key.\<close>

definition keyless_env :: env where
  "keyless_env = demo_env\<lparr>autoincrement := (\<lambda>db. None)\<rparr>"

text \<open>The accounts and requests of the scenarios.\<close>

definition alice_request :: EnUser where
  "alice_request = \<lparr>username = ''Alice'', mail = ''a@x.com'', password = ''pw1''\<rparr>"

definition alice_row :: EnUserDB where
  "alice_row =
     \<lparr>username = ''alice'', mail = ''a@x.com'', password = ''$pbkdf2-sha256$pw1'',
      id_col = Some 1, date_joined = Some 1000, last_login = None\<rparr>"

definition bob_request :: EnUser where
  "bob_request = \<lparr>username = ''bob'', mail = ''b@x.com'', password = ''pw''\<rparr>"

definition bob_row :: EnUserDB where
  "bob_row =
     \<lparr>username = ''bob'', mail = ''b@x.com'', password = ''$pbkdf2-sha256$pw'',
      id_col = Some 1, date_joined = Some 1000, last_login = None\<rparr>"

definition only_mail :: "string \<Rightarrow> EnUserUpdate" where
  "only_mail m = \<lparr>upd_username = None, upd_mail = Some m, upd_password = None\<rparr>"

definition only_password :: "string \<Rightarrow> EnUserUpdate" where
  "only_password p = \<lparr>upd_username = None, upd_mail = None, upd_password = Some p\<rparr>"

section \<open>Facts about the helpers\<close>

lemma demo_decode_encode: "demo_decode (demo_encode c) = Some c"
  by (cases c)
     (auto simp: demo_encode_def demo_decode_def demo_encode_id_def demo_decode_id_def
                 takeWhile_append dropWhile_append
           split: option.splits list.splits)

lemmas demo_defs =
  demo_env_def keyless_env_def demo_encode_def demo_decode_def demo_encode_id_def
  demo_decode_id_def demo_autoincrement_def alice_request_def alice_row_def bob_request_def
  bob_row_def only_mail_def only_password_def

lemmas router_defs =
  user_login_def user_register_def user_read_def update_user_def delete_user_def
  select_by_username_def select_by_mail_def db_get_def db_insert_def db_merge_def
  db_delete_def decode_token_def verify_password_def get_token_information_def
  get_token_information_db_def model_dict_def truthy_def response_model_def setattr_def
  lower_def lower_char_def EnUser.truncate_def Let_def

lemma find_db_merge_same:
  "find (\<lambda>r. id_col r = Some i) db = Some row \<Longrightarrow> id_col row' = Some i \<Longrightarrow>
   find (\<lambda>r. id_col r = Some i) (db_merge db row') = Some row'"
  by (induction db) (auto simp: db_merge_def)

lemma find_db_merge_other:
  "id_col row' \<noteq> Some j \<Longrightarrow>
   find (\<lambda>r. id_col r = Some j) (db_merge db row') = find (\<lambda>r. id_col r = Some j) db"
  by (induction db) (auto simp: db_merge_def)

lemma find_Some_id: "find (\<lambda>r. id_col r = Some i) db = Some row \<Longrightarrow> id_col row = Some i"
  by (induction db) (auto split: if_splits)

lemma setattr_items_model_dict:
  "setattr_items (Some row) (model_dict user) =
     Inr (Some (row\<lparr>username := (case upd_username user of None \<Rightarrow> username row | Some v \<Rightarrow> v),
                    mail := (case upd_mail user of None \<Rightarrow> mail row | Some v \<Rightarrow> v),
                    password := (case upd_password user of None \<Rightarrow> password row | Some v \<Rightarrow> v)\<rparr>))"
  by (simp add: model_dict_def setattr_def split: option.splits)

lemma setattr_items_None:
  "setattr_items None items = (if items = [] then Inr None else Inl (Unhandled AttributeError))"
  by (cases items) auto

section \<open>What the operations do, for every environment and table\<close>

lemma user_login_no_row:
  "select_by_username db uname = None \<Longrightarrow>
   user_login e db uname pw = (db, Inl (HTTPException HTTP_404_NOT_FOUND ''User not found.''))"
  by (simp add: user_login_def)

lemma user_login_wrong_password:
  "select_by_username db uname = Some row \<Longrightarrow> \<not> pbkdf2_sha256_verify e pw (password row) \<Longrightarrow>
   user_login e db uname pw = (db, Inl (HTTPException HTTP_401_UNAUTHORIZED ''Password incorrect.''))"
  by (simp add: user_login_def verify_password_def)

lemma user_login_success:
  "select_by_username db uname = Some row \<Longrightarrow> pbkdf2_sha256_verify e pw (password row) \<Longrightarrow>
   user_login e db uname pw =
     (db_merge db (row\<lparr>last_login := Some (datetime_now e)\<rparr>),
      Inr \<lparr>message = ''User login successful.'',
           user_data = \<lparr>claim_id = id_col row, claim_username = Some (username row)\<rparr>,
           access_token = jwt_encode e \<lparr>claim_id = id_col row, claim_username = Some (username row)\<rparr>,
           token_type = ''bearer''\<rparr>)"
  by (simp add: user_login_def verify_password_def get_token_information_db_def Let_def)

lemma user_register_success:
  assumes "select_by_username db (username user) = None"
    and "select_by_mail db (mail user) = None"
    and "autoincrement e db = Some k"
  shows "user_register e db user =
           (db @ [\<lparr>username = str_lower e (username user),
                   mail = mail user,
                   password = pbkdf2_sha256_hash e (password user),
                   id_col = Some k,
                   date_joined = Some (datetime_now e),
                   last_login = None\<rparr>],
            Inr \<lparr>message = ''User created.'',
                 user_data = \<lparr>claim_id = None, claim_username = Some (username user)\<rparr>,
                 access_token =
                   jwt_encode e \<lparr>claim_id = None, claim_username = Some (username user)\<rparr>,
                 token_type = ''bearer''\<rparr>)"
  using assms
  by (simp add: user_register_def db_insert_def get_token_information_def Let_def)

lemma user_read_row:
  "token \<noteq> [] \<Longrightarrow> decode_token e token = Inr td \<Longrightarrow> claim_id td = Some i \<Longrightarrow>
   find (\<lambda>r. id_col r = Some i) db = Some row \<Longrightarrow>
   user_read e db token =
     Inr \<lparr>username = username row, mail = mail row, password = password row\<rparr>"
  by (simp add: user_read_def db_get_def response_model_def EnUser.truncate_def)

lemma user_read_no_row:
  "token \<noteq> [] \<Longrightarrow> decode_token e token = Inr td \<Longrightarrow> claim_id td = Some i \<Longrightarrow>
   find (\<lambda>r. id_col r = Some i) db = None \<Longrightarrow>
   user_read e db token = Inl (HTTPException HTTP_404_NOT_FOUND ''User not found.'')"
  by (simp add: user_read_def db_get_def)

lemma update_user_no_row:
  "decode_token e token = Inr td \<Longrightarrow> claim_id td = Some i \<Longrightarrow>
   find (\<lambda>r. id_col r = Some i) db = None \<Longrightarrow>
   update_user e db token user =
     (db, Inl (Unhandled (if model_dict user = [] then UnmappedInstanceError else AttributeError)))"
  by (simp add: update_user_def db_get_def truthy_def setattr_items_None)

lemma delete_user_with_id:
  "decode_token e token = Inr td \<Longrightarrow> claim_id td = Some i \<Longrightarrow>
   delete_user e db token = (db, Inl (Unhandled NoInspectionAvailable))"
  by (simp add: delete_user_def db_get_def)

lemma delete_user_by_username:
  "decode_token e token = Inr td \<Longrightarrow> claim_id td = None \<Longrightarrow> claim_username td = Some u \<Longrightarrow>
   delete_user e db token =
     (case select_by_username db u of
        None \<Rightarrow> (db, Inl (HTTPException HTTP_404_NOT_FOUND ''User not found.''))
      | Some row \<Rightarrow>
          (db_delete db row,
           Inr \<lparr>del_message = ''User was successfully deleted.'',
                del_user_data = get_token_information_db row,
                del_token = token,
                del_token_type = ''bearer''\<rparr>))"
  by (simp add: delete_user_def split: option.splits)

lemma update_user_row:
  assumes "decode_token e token = Inr td"
    and "claim_id td = Some i"
    and "find (\<lambda>r. id_col r = Some i) db = Some row"
  shows "update_user e db token user =
           (db_merge db
              (row\<lparr>username := (case upd_username user of None \<Rightarrow> username row | Some v \<Rightarrow> v),
                    mail := (case upd_mail user of None \<Rightarrow> mail row | Some v \<Rightarrow> v),
                    password := (case upd_password user of None \<Rightarrow> password row | Some v \<Rightarrow> v)\<rparr>),
            Inr (response_model
              (row\<lparr>username := (case upd_username user of None \<Rightarrow> username row | Some v \<Rightarrow> v),
                    mail := (case upd_mail user of None \<Rightarrow> mail row | Some v \<Rightarrow> v),
                    password := (case upd_password user of None \<Rightarrow> password row | Some v \<Rightarrow> v)\<rparr>)))"
  using assms by (simp add: update_user_def db_get_def truthy_def setattr_items_model_dict)

lemma filter_db_merge_others:
  "id_col row' = Some i \<Longrightarrow>
   filter (\<lambda>r. id_col r \<noteq> Some i) (db_merge db row') = filter (\<lambda>r. id_col r \<noteq> Some i) db"
  by (induction db) (auto simp: db_merge_def)

lemma update_user_password_raw:
  assumes "decode_token e token = Inr td"
    and "claim_id td = Some i"
    and "find (\<lambda>r. id_col r = Some i) db = Some row"
    and "upd_password user = Some p"
  shows "\<exists>row'. find (\<lambda>r. id_col r = Some i) (fst (update_user e db token user)) = Some row' \<and>
                password row' = p"
proof -
  let ?row' = "row\<lparr>username := (case upd_username user of None \<Rightarrow> username row | Some v \<Rightarrow> v),
                    mail := (case upd_mail user of None \<Rightarrow> mail row | Some v \<Rightarrow> v),
                    password := (case upd_password user of None \<Rightarrow> password row | Some v \<Rightarrow> v)\<rparr>"
  have "id_col ?row' = Some i"
    using find_Some_id [OF assms(3)] by simp
  then have "find (\<lambda>r. id_col r = Some i) (db_merge db ?row') = Some ?row'"
    using find_db_merge_same [OF assms(3)] by blast
  moreover have "password ?row' = p"
    using assms(4) by simp
  ultimately show ?thesis
    using update_user_row [OF assms(1-3), of user] by auto
qed

section \<open>The claims\<close>

text \<open>
  C1. For every valid registration, the token returned by register decodes to claims
  whose id and username are those of the account as stored. The code does not do this:
  \<open>user_register\<close> stores the row built from the request (username lowercased, id
  assigned), tests that row's id, and then encodes the claims of the request object.
  Registering "Alice" on an empty table stores the account \<open>alice\<close> with id 1, and
  the returned token decodes to the username \<open>Alice\<close> with no id.
\<close>

theorem register_token_claims_are_the_requests:
  "user_register demo_env [] alice_request =
     ([alice_row],
      Inr \<lparr>message = ''User created.'',
           user_data = \<lparr>claim_id = None, claim_username = Some ''Alice''\<rparr>,
           access_token = ''-:uAlice'',
           token_type = ''bearer''\<rparr>) \<and>
   jwt_decode demo_env ''-:uAlice'' = Some \<lparr>claim_id = None, claim_username = Some ''Alice''\<rparr> \<and>
   username alice_row = ''alice'' \<and> id_col alice_row = Some 1"
  by (simp add: router_defs demo_defs)

text \<open>
  C2. After an account was registered under a username, registering the same username in
  another casing fails with Conflict and creates no second account. The code does not do
  this: the check before the insert compares the stored, lowercased names with the name
  as typed. After "bob", registering "BOB" with another mail succeeds, and the table
  holds two accounts named \<open>bob\<close>.
\<close>

theorem register_other_casing_creates_second_account:
  "user_register demo_env [] bob_request =
     ([bob_row],
      Inr \<lparr>message = ''User created.'',
           user_data = \<lparr>claim_id = None, claim_username = Some ''bob''\<rparr>,
           access_token = ''-:ubob'',
           token_type = ''bearer''\<rparr>) \<and>
   user_register demo_env [bob_row]
       \<lparr>username = ''BOB'', mail = ''other@x.com'', password = ''pw2''\<rparr> =
     ([bob_row,
       \<lparr>username = ''bob'', mail = ''other@x.com'', password = ''$pbkdf2-sha256$pw2'',
        id_col = Some 2, date_joined = Some 1000, last_login = None\<rparr>],
      Inr \<lparr>message = ''User created.'',
           user_data = \<lparr>claim_id = None, claim_username = Some ''BOB''\<rparr>,
           access_token = ''-:uBOB'',
           token_type = ''bearer''\<rparr>) \<and>
   username bob_row = ''bob''"
  by (simp add: router_defs demo_defs)

text \<open>
  C3. For a valid token whose claim id is that of an account, read returns the account
  projection with the password hash absent, and the stored hash never appears in an
  answer of read. The code does not do this: the answer of \<open>/read\<close> is the row cut
  down to \<open>EnUser\<close>, the model that requests are parsed into, and \<open>password\<close> is
  one of its fields (\<open>user_register\<close> reads it from there). Reading the account of
  alice with a token that carries her id returns her stored hash. Everywhere else the
  router keeps the password secret: it is hashed before it is stored, and login,
  register and delete answer with the claims only.
\<close>

theorem read_response_carries_stored_hash:
  "jwt_decode demo_env ''p1:ualice'' = Some \<lparr>claim_id = Some 1, claim_username = Some ''alice''\<rparr> \<and>
   user_read demo_env [alice_row] ''p1:ualice'' =
     Inr \<lparr>username = ''alice'', mail = ''a@x.com'', password = ''$pbkdf2-sha256$pw1''\<rparr> \<and>
   password alice_row = ''$pbkdf2-sha256$pw1''"
  by (simp add: router_defs demo_defs)

text \<open>
  C4. When the partial fields of an update include a password, the value persisted is
  the hasher's output for it, never the plaintext. The code does not do this: the loop
  copies every present field into the row as it is. Updating alice with the password
  \<open>newpw\<close> stores \<open>newpw\<close>, which is not what the hasher gives for it (and which
  no later login can verify).
\<close>

theorem update_stores_password_as_given:
  "update_user demo_env [alice_row] ''p1:ualice'' (only_password ''newpw'') =
     ([alice_row\<lparr>password := ''newpw''\<rparr>],
      Inr \<lparr>username = ''alice'', mail = ''a@x.com'', password = ''newpw''\<rparr>) \<and>
   pbkdf2_sha256_hash demo_env ''newpw'' \<noteq> ''newpw'' \<and>
   \<not> pbkdf2_sha256_verify demo_env ''newpw'' ''newpw''"
  by (simp add: router_defs demo_defs)

text \<open>
  C5. For an update with a valid token whose claim id is that of an account in the
  table, only the fields present in the partial update change: the stored account after
  the call has the id, the join date and the last login it had, and each of username,
  mail and password is the payload's value where the payload has one and the old value
  otherwise. The answer is the projection of that account, and every other account of
  the table is as it was.
\<close>

theorem update_user_changes_only_present_fields:
  assumes "decode_token e token = Inr td"
    and "claim_id td = Some i"
    and "find (\<lambda>r. id_col r = Some i) db = Some row"
  shows "\<exists>row'.
           update_user e db token user = (db_merge db row', Inr (response_model row')) \<and>
           find (\<lambda>r. id_col r = Some i) (db_merge db row') = Some row' \<and>
           filter (\<lambda>r. id_col r \<noteq> Some i) (db_merge db row') =
             filter (\<lambda>r. id_col r \<noteq> Some i) db \<and>
           id_col row' = id_col row \<and>
           date_joined row' = date_joined row \<and>
           last_login row' = last_login row \<and>
           username row' = (case upd_username user of None \<Rightarrow> username row | Some v \<Rightarrow> v) \<and>
           mail row' = (case upd_mail user of None \<Rightarrow> mail row | Some v \<Rightarrow> v) \<and>
           password row' = (case upd_password user of None \<Rightarrow> password row | Some v \<Rightarrow> v)"
proof -
  let ?row' = "row\<lparr>username := (case upd_username user of None \<Rightarrow> username row | Some v \<Rightarrow> v),
                    mail := (case upd_mail user of None \<Rightarrow> mail row | Some v \<Rightarrow> v),
                    password := (case upd_password user of None \<Rightarrow> password row | Some v \<Rightarrow> v)\<rparr>"
  have key: "id_col ?row' = Some i"
    using find_Some_id [OF assms(3)] by simp
  have res: "update_user e db token user = (db_merge db ?row', Inr (response_model ?row'))"
    by (rule update_user_row [OF assms])
  have stored: "find (\<lambda>r. id_col r = Some i) (db_merge db ?row') = Some ?row'"
    using find_db_merge_same [OF assms(3) key] .
  have others: "filter (\<lambda>r. id_col r \<noteq> Some i) (db_merge db ?row') =
                  filter (\<lambda>r. id_col r \<noteq> Some i) db"
    using filter_db_merge_others [OF key] .
  have fields: "id_col ?row' = id_col row \<and> date_joined ?row' = date_joined row \<and>
                last_login ?row' = last_login row \<and>
                username ?row' = (case upd_username user of None \<Rightarrow> username row | Some v \<Rightarrow> v) \<and>
                mail ?row' = (case upd_mail user of None \<Rightarrow> mail row | Some v \<Rightarrow> v) \<and>
                password ?row' = (case upd_password user of None \<Rightarrow> password row | Some v \<Rightarrow> v)"
    by simp
  from res stored others fields show ?thesis by blast
qed

theorem update_user_changes_only_present_fields_witness:
  "decode_token demo_env ''p1:ualice'' = Inr \<lparr>claim_id = Some 1, claim_username = Some ''alice''\<rparr> \<and>
   find (\<lambda>r. id_col r = Some 1) [alice_row] = Some alice_row \<and>
   (\<exists>row'.
      update_user demo_env [alice_row] ''p1:ualice'' (only_mail ''a2@x.com'') =
        (db_merge [alice_row] row', Inr (response_model row')) \<and>
      find (\<lambda>r. id_col r = Some 1) (db_merge [alice_row] row') = Some row' \<and>
      id_col row' = Some 1 \<and>
      date_joined row' = Some 1000 \<and>
      last_login row' = None \<and>
      username row' = ''alice'' \<and>
      mail row' = ''a2@x.com'' \<and>
      password row' = ''$pbkdf2-sha256$pw1'')"
proof -
  have dec: "decode_token demo_env ''p1:ualice'' =
               Inr \<lparr>claim_id = Some 1, claim_username = Some ''alice''\<rparr>"
    by (simp add: decode_token_def demo_defs)
  have cid: "claim_id \<lparr>claim_id = Some 1, claim_username = Some ''alice''\<rparr> = Some 1" by simp
  have row: "find (\<lambda>r. id_col r = Some 1) [alice_row] = Some alice_row"
    by (simp add: alice_row_def)
  from update_user_changes_only_present_fields [OF dec cid row, of "only_mail ''a2@x.com''"]
  obtain row' where r:
    "update_user demo_env [alice_row] ''p1:ualice'' (only_mail ''a2@x.com'') =
       (db_merge [alice_row] row', Inr (response_model row'))"
    "find (\<lambda>r. id_col r = Some 1) (db_merge [alice_row] row') = Some row'"
    "id_col row' = id_col alice_row"
    "date_joined row' = date_joined alice_row"
    "last_login row' = last_login alice_row"
    "username row' = (case upd_username (only_mail ''a2@x.com'') of None \<Rightarrow> username alice_row | Some v \<Rightarrow> v)"
    "mail row' = (case upd_mail (only_mail ''a2@x.com'') of None \<Rightarrow> mail alice_row | Some v \<Rightarrow> v)"
    "password row' = (case upd_password (only_mail ''a2@x.com'') of None \<Rightarrow> password alice_row | Some v \<Rightarrow> v)"
    by blast
  have "id_col row' = Some 1" "date_joined row' = Some 1000" "last_login row' = None"
    "username row' = ''alice''" "mail row' = ''a2@x.com''" "password row' = ''$pbkdf2-sha256$pw1''"
    using r(3-8) by (simp_all add: alice_row_def only_mail_def)
  with r(1,2) dec row show ?thesis by blast
qed

text \<open>
  C6. An update with a valid token whose claim id matches no account fails with NotFound.
  The code does not do this: the test that raises NotFound is made on the payload, which
  is never false, so the loop runs on the \<open>None\<close> that the lookup returned and the first
  assignment raises. With the token of account 1 and an empty table the call ends in an
  unhandled \<open>AttributeError\<close>, not in a 404.
\<close>

theorem update_missing_account_raises:
  "jwt_decode demo_env ''p1:ualice'' = Some \<lparr>claim_id = Some 1, claim_username = Some ''alice''\<rparr> \<and>
   update_user demo_env [] ''p1:ualice'' (only_mail ''a2@x.com'') =
     ([], Inl (Unhandled AttributeError))"
  by (simp add: router_defs demo_defs)

text \<open>
  C7. For a valid token, delete resolves the account by the claim id when the claims have
  one and by the claim username otherwise, removes it, and returns its projection with
  the token; a missing account is NotFound. The code does this on the username path only:
  with an id in the claims the lookup is made on \<open>EnUser\<close>, which is not a table, and
  raises. Deleting alice with a token that carries her id leaves the table as it was
  and ends in an unhandled error; the token without the id deletes her.
\<close>

theorem delete_by_claim_id_raises:
  "jwt_decode demo_env ''p1:ualice'' = Some \<lparr>claim_id = Some 1, claim_username = Some ''alice''\<rparr> \<and>
   delete_user demo_env [alice_row] ''p1:ualice'' =
     ([alice_row], Inl (Unhandled NoInspectionAvailable)) \<and>
   delete_user demo_env [alice_row] ''-:ualice'' =
     ([],
      Inr \<lparr>del_message = ''User was successfully deleted.'',
           del_user_data = \<lparr>claim_id = Some 1, claim_username = Some ''alice''\<rparr>,
           del_token = ''-:ualice'',
           del_token_type = ''bearer''\<rparr>)"
  by (simp add: router_defs demo_defs)

text \<open>
  C8. Login fails with NotFound only if no account matches the username under
  case-insensitive comparison, with Unauthorized if the password does not verify, and
  otherwise succeeds. The code does not do this: the lookup compares the name as typed
  with the stored, lowercased names. After registering as "Alice" with password
  \<open>pw1\<close>, the login of "Alice" with \<open>pw1\<close> is NotFound, although the stored
  account matches up to case and the password verifies against its hash; only the
  login of \<open>alice\<close> succeeds.
\<close>

theorem login_with_registered_casing_not_found:
  "fst (user_register demo_env [] alice_request) = [alice_row] \<and>
   user_login demo_env [alice_row] ''Alice'' ''pw1'' =
     ([alice_row], Inl (HTTPException HTTP_404_NOT_FOUND ''User not found.'')) \<and>
   lower (username alice_row) = lower ''Alice'' \<and>
   verify_password demo_env alice_row ''pw1'' \<and>
   user_login demo_env [alice_row] ''alice'' ''pw1'' =
     ([alice_row\<lparr>last_login := Some 1000\<rparr>],
      Inr \<lparr>message = ''User login successful.'',
           user_data = \<lparr>claim_id = Some 1, claim_username = Some ''alice''\<rparr>,
           access_token = ''p1:ualice'',
           token_type = ''bearer''\<rparr>)"
  by (simp add: router_defs demo_defs)

text \<open>
  C9. After an account was deleted, every read or update with a token issued for it
  before yields NotFound. The code does this for read and not for update, for the reason
  given under C6. bob registers and logs in; the token of the registration (it has no
  id) deletes him; the login token still decodes; read with it is NotFound, and update
  with it ends in an unhandled \<open>AttributeError\<close>.
\<close>

theorem update_after_delete_raises:
  "user_register demo_env [] bob_request =
     ([bob_row],
      Inr \<lparr>message = ''User created.'',
           user_data = \<lparr>claim_id = None, claim_username = Some ''bob''\<rparr>,
           access_token = ''-:ubob'',
           token_type = ''bearer''\<rparr>) \<and>
   user_login demo_env [bob_row] ''bob'' ''pw'' =
     ([bob_row\<lparr>last_login := Some 1000\<rparr>],
      Inr \<lparr>message = ''User login successful.'',
           user_data = \<lparr>claim_id = Some 1, claim_username = Some ''bob''\<rparr>,
           access_token = ''p1:ubob'',
           token_type = ''bearer''\<rparr>) \<and>
   delete_user demo_env [bob_row\<lparr>last_login := Some 1000\<rparr>] ''-:ubob'' =
     ([],
      Inr \<lparr>del_message = ''User was successfully deleted.'',
           del_user_data = \<lparr>claim_id = Some 1, claim_username = Some ''bob''\<rparr>,
           del_token = ''-:ubob'',
           del_token_type = ''bearer''\<rparr>) \<and>
   decode_token demo_env ''p1:ubob'' = Inr \<lparr>claim_id = Some 1, claim_username = Some ''bob''\<rparr> \<and>
   user_read demo_env [] ''p1:ubob'' = Inl (HTTPException HTTP_404_NOT_FOUND ''User not found.'') \<and>
   update_user demo_env [] ''p1:ubob'' (only_mail ''b2@x.com'') =
     ([], Inl (Unhandled AttributeError))"
  by (simp add: router_defs demo_defs)

text \<open>
  C10. Register has a failure beyond Conflict. When neither the username nor the mail of
  the request is taken, the new row is committed with the key the engine gives it; if
  the row has no id after the commit the call fails with status 404 and the detail
  "User registration failed.", and the message, claims and token are returned exactly
  when the row has an id.
\<close>

theorem user_register_needs_assigned_id:
  assumes "select_by_username db (username user) = None"
    and "select_by_mail db (mail user) = None"
  shows "user_register e db user =
           (db @ [\<lparr>username = str_lower e (username user),
                   mail = mail user,
                   password = pbkdf2_sha256_hash e (password user),
                   id_col = autoincrement e db,
                   date_joined = Some (datetime_now e),
                   last_login = None\<rparr>],
            if autoincrement e db = None
            then Inl (HTTPException HTTP_404_NOT_FOUND ''User registration failed.'')
            else Inr \<lparr>message = ''User created.'',
                      user_data = get_token_information user,
                      access_token = jwt_encode e (get_token_information user),
                      token_type = ''bearer''\<rparr>)"
  using assms by (simp add: user_register_def db_insert_def Let_def)

theorem user_register_needs_assigned_id_witness:
  "select_by_username [] (username alice_request) = None \<and>
   select_by_mail [] (mail alice_request) = None \<and>
   user_register keyless_env [] alice_request =
     ([alice_row\<lparr>id_col := None\<rparr>],
      Inl (HTTPException HTTP_404_NOT_FOUND ''User registration failed.''))"
proof -
  have u: "select_by_username [] (username alice_request) = None"
    by (simp add: select_by_username_def)
  have m: "select_by_mail [] (mail alice_request) = None"
    by (simp add: select_by_mail_def)
  show ?thesis
    using user_register_needs_assigned_id [OF u m, of keyless_env] u m
    by (simp add: demo_defs lower_def lower_char_def)
qed

end
